theory Spec2Isabelle
  imports Main "HOL-Library.Sublist"
begin

section \<open>Data model\<close>

text \<open>
  A Python \<open>str\<close> is a sequence of Unicode code points: slicing and \<open>len\<close> count code
  points, so a string is modelled as a list of code points. \<open>ascii\<close> embeds an ASCII
  literal; the Japanese literals of the source are written out as code points.
\<close>

type_synonym str = "nat list"

definition ascii :: "string \<Rightarrow> str" where
  "ascii s = map of_char s"

text \<open>Metadata values: the loaders store strings and (page or row) numbers.\<close>

datatype pyvalue = Str str | Num int

text \<open>\<open>langchain_core.documents.Document\<close>: the text and the metadata dict.\<close>

record document =
  page_content :: str
  metadata :: "str \<rightharpoonup> pyvalue"

text \<open>
  Exceptions. \<open>ValueError\<close> and \<open>KeyError\<close> are raised by the repository's own code;
  \<open>LibraryError\<close> stands for any exception raised inside a third-party call.
\<close>

datatype error = ValueError str | KeyError str | LibraryError str

text \<open>
  Distance scores are floating-point numbers; the model keeps them opaque, and the
  conversion \<open>float(score)\<close> of the source is the identity on them.
\<close>

typedecl score

text \<open>
  A loaded FAISS index, as the object the handler calls methods on. A similarity
  search embeds the query through a remote service and may raise.
\<close>

record vectorstore =
  similarity_search_with_score :: "str \<Rightarrow> int \<Rightarrow> error + (document \<times> score) list"
  similarity_search :: "str \<Rightarrow> int \<Rightarrow> error + document list"

text \<open>\<open>ChatOpenAI(model_name=..., temperature=0)\<close> and \<open>OpenAIEmbeddings()\<close>.\<close>

record chat_model =
  model_name :: str
  temperature :: int

datatype embeddings = OpenAIEmbeddings

text \<open>
  The chain built by \<open>RetrievalQA.from_chain_type\<close>: the arguments the source passes.
  The retriever is \<open>vectorstore.as_retriever(search_kwargs={"k": ...})\<close>, that is the
  store together with the number of chunks to retrieve.
\<close>

record retrieval_qa =
  chain_llm :: chat_model
  chain_type :: str
  retriever_store :: vectorstore
  retriever_k :: int
  return_source_documents :: bool
  prompt_template :: str
  prompt_input_variables :: "str list"

text \<open>
  What invoking the chain returns: the key \<open>"result"\<close>, and the key
  \<open>"source_documents"\<close> when the chain provides it (\<open>None\<close>: the key is absent).
\<close>

record qa_result =
  result :: str
  source_documents :: "document list option"

datatype loader_class =
  TextLoader | PyPDFLoader | UnstructuredExcelLoader | Docx2txtLoader | CSVLoader

text \<open>
  The standard library and the third-party packages the repository calls. Their code
  is not part of the repository, so each is a parameter of the model; a call that can
  raise returns a sum. The file system is read as a snapshot.
\<close>

record library =
  os_path_exists :: "str \<Rightarrow> bool"
  os_walk :: "str \<Rightarrow> (str \<times> str list \<times> str list) list"
  os_path_join :: "str \<Rightarrow> str \<Rightarrow> str"
  os_path_splitext :: "str \<Rightarrow> str \<times> str"
  str_lower :: "str \<Rightarrow> str"
  py_hash :: "str \<Rightarrow> int"
  loader_load :: "loader_class \<Rightarrow> str \<Rightarrow> error + document list"
  new_embeddings :: "error + embeddings"
  new_chat_model :: "str \<Rightarrow> int \<Rightarrow> error + chat_model"
  split_documents :: "nat \<Rightarrow> nat \<Rightarrow> document list \<Rightarrow> error + document list"
  faiss_from_documents :: "document list \<Rightarrow> embeddings \<Rightarrow> error + vectorstore"
  faiss_load_local :: "str \<Rightarrow> embeddings \<Rightarrow> error + vectorstore"
  faiss_save_local :: "vectorstore \<Rightarrow> str \<Rightarrow> error option"
  shutil_rmtree :: "str \<Rightarrow> error option"
  qa_invoke :: "retrieval_qa \<Rightarrow> str \<Rightarrow> error + qa_result"

section \<open>rag/query\_handler.py\<close>

record handler =
  index_path :: str
  handler_embeddings :: embeddings
  llm :: chat_model
  handler_vectorstore :: "vectorstore option"

text \<open>
  \<open>_load_vectorstore\<close>: any exception of \<open>FAISS.load_local\<close> is caught and leaves the
  store unset.
\<close>

definition load_vectorstore_handler :: "library \<Rightarrow> handler \<Rightarrow> handler" where
  "load_vectorstore_handler lib h =
     (case faiss_load_local lib (index_path h) (handler_embeddings h) of
        Inr vs \<Rightarrow> h\<lparr>handler_vectorstore := Some vs\<rparr>
      | Inl e \<Rightarrow> h\<lparr>handler_vectorstore := None\<rparr>)"

text \<open>\<open>RAGQueryHandler.__init__\<close>; the constructors of the two clients may raise.\<close>

definition RAGQueryHandler :: "library \<Rightarrow> str \<Rightarrow> str \<Rightarrow> error + handler" where
  "RAGQueryHandler lib path name =
     (case new_embeddings lib of
        Inl e \<Rightarrow> Inl e
      | Inr emb \<Rightarrow>
          (case new_chat_model lib name 0 of
             Inl e \<Rightarrow> Inl e
           | Inr m \<Rightarrow>
               Inr (load_vectorstore_handler lib
                 \<lparr>index_path = path, handler_embeddings = emb, llm = m,
                  handler_vectorstore = None\<rparr>)))"

text \<open>The dict returned per hit by \<open>search_similar_cases\<close>.\<close>

record scored_case =
  case_content :: str
  case_metadata :: "str \<rightharpoonup> pyvalue"
  similarity_score :: score

definition search_similar_cases ::
  "handler \<Rightarrow> str \<Rightarrow> int \<Rightarrow> error + scored_case list" where
  "search_similar_cases h query k =
     (case handler_vectorstore h of
        None \<Rightarrow> Inr []
      | Some vs \<Rightarrow>
          (case similarity_search_with_score vs query k of
             Inl e \<Rightarrow> Inl e
           | Inr docs_with_scores \<Rightarrow>
               Inr (map (\<lambda>(doc, sc).
                      \<lparr>case_content = page_content doc,
                       case_metadata = metadata doc,
                       similarity_score = sc\<rparr>) docs_with_scores)))"

text \<open>\<open>"\<dots>"\<close> placeholders of the source, as code points.\<close>

definition unknown_label :: str where
  "unknown_label = [19981, 26126]"

definition not_loaded_answer :: str where
  "not_loaded_answer =
     [12456, 12521, 12540, 58, 32, 12505, 12463, 12488, 12523, 12473, 12488, 12450,
      12364, 35501, 12415, 36796, 12414, 12428, 12390, 12356, 12414, 12379, 12435,
      12290, 20808, 12395, 12452, 12531, 12487, 12483, 12463, 12473, 12434, 27083,
      31689, 12375, 12390, 12367, 12384, 12373, 12356, 12290]"

definition qa_prompt_template :: str where
  "qa_prompt_template =
     [12354, 12394, 12383, 12399, 21697, 36074, 31649, 29702, 12392, 26159, 27491,
      31574, 12398, 23554, 38272, 23478, 12391, 12377, 12290, 10, 20197, 19979, 12398,
      36942, 21435, 12398, 26696, 20214, 24773, 22577, 12434, 21442, 32771, 12395,
      12289, 36074, 21839, 12395, 23550, 12375, 12390, 35443, 32048, 12363, 12388,
      20855, 20307, 30340, 12394, 22238, 31572, 12434, 25552, 20379, 12375, 12390,
      12367, 12384, 12373, 12356, 12290, 10, 10, 36942, 21435, 12398, 26696, 20214,
      24773, 22577, 58, 10, 123, 99, 111, 110, 116, 101, 120, 116, 125, 10, 10, 36074,
      21839, 58, 32, 123, 113, 117, 101, 115, 116, 105, 111, 110, 125, 10, 10, 22238,
      31572, 12377, 12427, 38555, 12399, 20197, 19979, 12398, 28857, 12395, 27880,
      24847, 12375, 12390, 12367, 12384, 12373, 12356, 58, 10, 49, 46, 32, 36942,
      21435, 12398, 39006, 20284, 26696, 20214, 12363, 12425, 23398, 12435, 12384,
      25945, 35347, 12434, 27963, 29992, 12377, 12427, 10, 50, 46, 32, 20855, 20307,
      30340, 12394, 26159, 27491, 31574, 12420, 23550, 24540, 26041, 27861, 12434,
      25552, 31034, 12377, 12427, 10, 51, 46, 32, 20877, 30330, 38450, 27490, 12398,
      12383, 12417, 12398, 20104, 38450, 31574, 12418, 25552, 26696, 12377, 12427, 10,
      52, 46, 32, 24773, 22577, 28304, 12364, 26126, 30906, 12394, 22580, 21512, 12399,
      12501, 12449, 12452, 12523, 21517, 12434, 21442, 29031, 12377, 12427, 10, 10,
      22238, 31572, 58]"

text \<open>\<open>dict.get(key, default)\<close> on a metadata dict.\<close>

definition metadata_get :: "(str \<rightharpoonup> pyvalue) \<Rightarrow> str \<Rightarrow> pyvalue \<Rightarrow> pyvalue" where
  "metadata_get m key dflt = (case m key of Some v \<Rightarrow> v | None \<Rightarrow> dflt)"

text \<open>The dicts of \<open>handle_query\<close>: one per source, and the response.\<close>

record source_info =
  source_file_name :: pyvalue
  source_type :: pyvalue
  content_preview :: str

record response =
  answer :: str
  sources :: "source_info list"

definition source_info_of :: "document \<Rightarrow> source_info" where
  "source_info_of doc =
     \<lparr>source_file_name = metadata_get (metadata doc) (ascii ''source_file'') (Str unknown_label),
      source_type = metadata_get (metadata doc) (ascii ''file_type'') (Str unknown_label),
      content_preview = take 200 (page_content doc) @ ascii ''...''\<rparr>"

text \<open>
  The chain \<open>handle_query\<close> builds from the handler's model and store.
\<close>

definition qa_chain :: "handler \<Rightarrow> vectorstore \<Rightarrow> bool \<Rightarrow> retrieval_qa" where
  "qa_chain h vs return_sources =
     \<lparr>chain_llm = llm h,
      chain_type = ascii ''stuff'',
      retriever_store = vs,
      retriever_k = 5,
      return_source_documents = return_sources,
      prompt_template = qa_prompt_template,
      prompt_input_variables = [ascii ''context'', ascii ''question'']\<rparr>"

text \<open>
  \<open>handle_query\<close> returns, beside its value, the chain invocations it made, in order:
  invoking the chain is the only place where the language model is called.
\<close>

datatype chain_call = Invoke retrieval_qa str

definition handle_query ::
  "library \<Rightarrow> handler \<Rightarrow> str \<Rightarrow> bool \<Rightarrow> chain_call list \<times> (error + response)" where
  "handle_query lib h query return_sources =
     (case handler_vectorstore h of
        None \<Rightarrow> ([], Inr \<lparr>answer = not_loaded_answer, sources = []\<rparr>)
      | Some vs \<Rightarrow>
          (let chain = qa_chain h vs return_sources in
           ([Invoke chain query],
            (case qa_invoke lib chain query of
               Inl e \<Rightarrow> Inl e
             | Inr res \<Rightarrow>
                 Inr \<lparr>answer = result res,
                      sources =
                        (if return_sources then
                           (case source_documents res of
                              Some docs \<Rightarrow> map source_info_of docs
                            | None \<Rightarrow> [])
                         else [])\<rparr>))))"

text \<open>The dict returned per document by \<open>get_relevant_documents\<close>.\<close>

record relevant_document =
  doc_content :: str
  doc_source_file :: pyvalue
  doc_file_type :: pyvalue
  doc_source_path :: pyvalue

definition get_relevant_documents ::
  "handler \<Rightarrow> str \<Rightarrow> int \<Rightarrow> error + relevant_document list" where
  "get_relevant_documents h query k =
     (case handler_vectorstore h of
        None \<Rightarrow> Inr []
      | Some vs \<Rightarrow>
          (case similarity_search vs query k of
             Inl e \<Rightarrow> Inl e
           | Inr docs \<Rightarrow>
               Inr (map (\<lambda>doc.
                      \<lparr>doc_content = page_content doc,
                       doc_source_file =
                         metadata_get (metadata doc) (ascii ''source_file'') (Str unknown_label),
                       doc_file_type =
                         metadata_get (metadata doc) (ascii ''file_type'') (Str unknown_label),
                       doc_source_path =
                         metadata_get (metadata doc) (ascii ''source_path'') (Str [])\<rparr>) docs)))"

text \<open>The dict returned per kept document by \<open>search_by_keywords\<close>.\<close>

record keyword_hit =
  hit_content :: str
  hit_metadata :: "str \<rightharpoonup> pyvalue"
  hit_keyword :: str

text \<open>
  The inner loop of \<open>search_by_keywords\<close> over the documents found for one keyword;
  the state is \<open>all_results\<close> and \<open>seen_contents\<close> (a set of hash values).
\<close>

fun scan_docs ::
  "(str \<Rightarrow> int) \<Rightarrow> str \<Rightarrow> document list \<Rightarrow> keyword_hit list \<times> int set
     \<Rightarrow> keyword_hit list \<times> int set" where
  "scan_docs hash keyword [] (all_results, seen_contents) = (all_results, seen_contents)"
| "scan_docs hash keyword (doc # docs) (all_results, seen_contents) =
     (let content_hash = hash (page_content doc) in
      if content_hash \<notin> seen_contents then
        scan_docs hash keyword docs
          (all_results @
             [\<lparr>hit_content = page_content doc, hit_metadata = metadata doc,
               hit_keyword = keyword\<rparr>],
           insert content_hash seen_contents)
      else scan_docs hash keyword docs (all_results, seen_contents))"

text \<open>The outer loop over the keywords; a search that raises ends the whole call.\<close>

fun scan_keywords ::
  "(str \<Rightarrow> int) \<Rightarrow> vectorstore \<Rightarrow> int \<Rightarrow> str list \<Rightarrow> keyword_hit list \<times> int set
     \<Rightarrow> error + keyword_hit list" where
  "scan_keywords hash vs k [] (all_results, seen_contents) = Inr all_results"
| "scan_keywords hash vs k (keyword # keywords) (all_results, seen_contents) =
     (case similarity_search vs keyword k of
        Inl e \<Rightarrow> Inl e
      | Inr docs \<Rightarrow>
          scan_keywords hash vs k keywords
            (scan_docs hash keyword docs (all_results, seen_contents)))"

definition search_by_keywords ::
  "library \<Rightarrow> handler \<Rightarrow> str list \<Rightarrow> int \<Rightarrow> error + keyword_hit list" where
  "search_by_keywords lib h keywords k =
     (case handler_vectorstore h of
        None \<Rightarrow> Inr []
      | Some vs \<Rightarrow> scan_keywords (py_hash lib) vs k keywords ([], {}))"

section \<open>loaders/load\_documents.py\<close>

text \<open>The dict \<open>supported_extensions\<close> of \<open>DocumentLoader.__init__\<close>.\<close>

definition supported_extensions :: "str \<rightharpoonup> loader_class" where
  "supported_extensions =
     [ascii ''.txt'' \<mapsto> TextLoader,
      ascii ''.pdf'' \<mapsto> PyPDFLoader,
      ascii ''.xlsx'' \<mapsto> UnstructuredExcelLoader,
      ascii ''.xls'' \<mapsto> UnstructuredExcelLoader,
      ascii ''.docx'' \<mapsto> Docx2txtLoader,
      ascii ''.doc'' \<mapsto> Docx2txtLoader,
      ascii ''.csv'' \<mapsto> CSVLoader]"

text \<open>
  \<open>_load_single_file\<close>: the dict lookup raises \<open>KeyError\<close> on an extension that is
  not a key; the loader may raise.
\<close>

definition load_single_file :: "library \<Rightarrow> str \<Rightarrow> str \<Rightarrow> error + document list" where
  "load_single_file lib file_path file_ext =
     (case supported_extensions file_ext of
        None \<Rightarrow> Inl (KeyError file_ext)
      | Some loader_class \<Rightarrow> loader_load lib loader_class file_path)"

text \<open>The three metadata assignments made on every document of a file.\<close>

definition add_file_metadata :: "str \<Rightarrow> str \<Rightarrow> str \<Rightarrow> document \<Rightarrow> document" where
  "add_file_metadata file file_path file_ext doc =
     doc\<lparr>metadata := (metadata doc)
       (ascii ''source_file'' \<mapsto> Str file,
        ascii ''source_path'' \<mapsto> Str file_path,
        ascii ''file_type'' \<mapsto> Str file_ext)\<rparr>"

text \<open>
  \<open>load_all_documents\<close>: the loop over the files of one directory, the loop over the
  directories \<open>os.walk\<close> yields, and the method. \<open>all_documents\<close> is the accumulator;
  the \<open>except Exception\<close> branch only prints, so a failed file leaves it unchanged.
\<close>

fun load_files :: "library \<Rightarrow> str \<Rightarrow> str list \<Rightarrow> document list \<Rightarrow> document list" where
  "load_files lib root [] all_documents = all_documents"
| "load_files lib root (file # files) all_documents =
     (let file_path = os_path_join lib root file;
          file_ext = str_lower lib (snd (os_path_splitext lib file))
      in if supported_extensions file_ext \<noteq> None then
           (case load_single_file lib file_path file_ext of
              Inr documents \<Rightarrow>
                load_files lib root files
                  (all_documents @ map (add_file_metadata file file_path file_ext) documents)
            | Inl e \<Rightarrow> load_files lib root files all_documents)
         else load_files lib root files all_documents)"

fun load_walk ::
  "library \<Rightarrow> (str \<times> str list \<times> str list) list \<Rightarrow> document list \<Rightarrow> document list" where
  "load_walk lib [] all_documents = all_documents"
| "load_walk lib ((root, dirs, files) # rest) all_documents =
     load_walk lib rest (load_files lib root files all_documents)"

definition load_all_documents :: "library \<Rightarrow> str \<Rightarrow> document list" where
  "load_all_documents lib data_folder =
     (if \<not> os_path_exists lib data_folder then []
      else load_walk lib (os_walk lib data_folder) [])"

text \<open>\<open>load_documents_by_type\<close>, with the same two loops.\<close>

fun load_files_by_type ::
  "library \<Rightarrow> str \<Rightarrow> str \<Rightarrow> str list \<Rightarrow> document list \<Rightarrow> document list" where
  "load_files_by_type lib file_type root [] documents = documents"
| "load_files_by_type lib file_type root (file # files) documents =
     (let file_path = os_path_join lib root file;
          file_ext = str_lower lib (snd (os_path_splitext lib file))
      in if file_ext = str_lower lib file_type then
           (case load_single_file lib file_path file_ext of
              Inr docs \<Rightarrow>
                load_files_by_type lib file_type root files
                  (documents @ map (add_file_metadata file file_path file_ext) docs)
            | Inl e \<Rightarrow> load_files_by_type lib file_type root files documents)
         else load_files_by_type lib file_type root files documents)"

fun load_walk_by_type ::
  "library \<Rightarrow> str \<Rightarrow> (str \<times> str list \<times> str list) list \<Rightarrow> document list
     \<Rightarrow> document list" where
  "load_walk_by_type lib file_type [] documents = documents"
| "load_walk_by_type lib file_type ((root, dirs, files) # rest) documents =
     load_walk_by_type lib file_type rest
       (load_files_by_type lib file_type root files documents)"

definition load_documents_by_type :: "library \<Rightarrow> str \<Rightarrow> str \<Rightarrow> document list" where
  "load_documents_by_type lib data_folder file_type =
     (if \<not> os_path_exists lib data_folder then []
      else load_walk_by_type lib file_type (os_walk lib data_folder) [])"

definition load_quality_documents :: "library \<Rightarrow> str \<Rightarrow> document list" where
  "load_quality_documents lib data_folder = load_all_documents lib data_folder"

section \<open>vectorstore/build\_vectorstore.py\<close>

text \<open>
  \<open>VectorStoreBuilder\<close>: the index path, the embeddings client and the configuration
  of the text splitter (\<open>length_function = len\<close> counts code points).
\<close>

record builder =
  builder_index_path :: str
  builder_embeddings :: embeddings
  chunk_size :: nat
  chunk_overlap :: nat

definition VectorStoreBuilder :: "library \<Rightarrow> str \<Rightarrow> error + builder" where
  "VectorStoreBuilder lib path =
     (case new_embeddings lib of
        Inl e \<Rightarrow> Inl e
      | Inr emb \<Rightarrow>
          Inr \<lparr>builder_index_path = path, builder_embeddings = emb,
               chunk_size = 1000, chunk_overlap = 200\<rparr>)"

text \<open>
  The calls that split documents and create, write or delete an index, logged in the
  order they are made.
\<close>

datatype index_call =
  SplitDocuments nat nat "document list"
| FromDocuments "document list"
| SaveLocal str
| RemoveTree str

definition empty_documents_message :: str where
  "empty_documents_message =
     [12489, 12461, 12517, 12513, 12531, 12488, 12364, 31354, 12391, 12377, 12290,
      12505, 12463, 12488, 12523, 12473, 12488, 12450, 12434, 27083, 31689, 12391,
      12365, 12414, 12379, 12435, 12290]"

definition no_documents_message :: str where
  "no_documents_message =
     [12501, 12457, 12523, 12480, 20869, 12395, 12489, 12461, 12517, 12513, 12531,
      12488, 12364, 35211, 12388, 12363, 12426, 12414, 12379, 12435, 12391, 12375,
      12383, 58, 32]"

definition build_vectorstore ::
  "library \<Rightarrow> builder \<Rightarrow> document list \<Rightarrow> index_call list \<times> (error + vectorstore)" where
  "build_vectorstore lib b documents =
     (if documents = [] then ([], Inl (ValueError empty_documents_message))
      else
        (case split_documents lib (chunk_size b) (chunk_overlap b) documents of
           Inl e \<Rightarrow> ([SplitDocuments (chunk_size b) (chunk_overlap b) documents], Inl e)
         | Inr split_docs \<Rightarrow>
             ([SplitDocuments (chunk_size b) (chunk_overlap b) documents,
               FromDocuments split_docs],
              faiss_from_documents lib split_docs (builder_embeddings b))))"

definition save_vectorstore ::
  "library \<Rightarrow> builder \<Rightarrow> vectorstore \<Rightarrow> index_call list \<times> error option" where
  "save_vectorstore lib b vs =
     ([SaveLocal (builder_index_path b)], faiss_save_local lib vs (builder_index_path b))"

definition build_vectorstore_from_folder ::
  "library \<Rightarrow> str \<Rightarrow> str \<Rightarrow> index_call list \<times> (error + vectorstore)" where
  "build_vectorstore_from_folder lib data_folder path =
     (let documents = load_quality_documents lib data_folder
      in if documents = [] then ([], Inl (ValueError (no_documents_message @ data_folder)))
         else
           (case VectorStoreBuilder lib path of
              Inl e \<Rightarrow> ([], Inl e)
            | Inr b \<Rightarrow>
                (case build_vectorstore lib b documents of
                   (calls, Inl e) \<Rightarrow> (calls, Inl e)
                 | (calls, Inr vs) \<Rightarrow>
                     (case save_vectorstore lib b vs of
                        (calls', Some e) \<Rightarrow> (calls @ calls', Inl e)
                      | (calls', None) \<Rightarrow> (calls @ calls', Inr vs)))))"

section \<open>main.py and demo.py\<close>

text \<open>
  How a run of an entry point goes on after its start-up code: the process exits
  with a status, dies of an uncaught exception, or control passes to
  \<open>interactive_mode(data_folder)\<close> or to \<open>demo()\<close>. Of the printed text only the two
  notices about the API key are kept. The environment \<open>getenv\<close> is the one the
  entry point reads, for main.py after \<open>load_dotenv()\<close> has run.
\<close>

datatype outcome = SysExit int | Uncaught error | InteractiveMode str | Demo

datatype notice = ApiKeyError | ApiKeyWarning

text \<open>\<open>not os.getenv(name)\<close>: the variable is unset or empty.\<close>

definition env_missing :: "(str \<rightharpoonup> str) \<Rightarrow> str \<Rightarrow> bool" where
  "env_missing getenv name = (case getenv name of None \<Rightarrow> True | Some v \<Rightarrow> v = [])"

text \<open>
  The \<open>if not index_exists\<close> block of \<open>initialize_system\<close>; \<open>None\<close>: it returns
  normally.
\<close>

definition first_setup :: "library \<Rightarrow> str \<Rightarrow> str \<Rightarrow> index_call list \<times> outcome option" where
  "first_setup lib data_folder path =
     (if \<not> os_path_exists lib data_folder then ([], Some (SysExit 1))
      else
        (case build_vectorstore_from_folder lib data_folder path of
           (calls, Inl e) \<Rightarrow> (calls, Some (SysExit 1))
         | (calls, Inr vs) \<Rightarrow> (calls, None)))"

definition initialize_system ::
  "library \<Rightarrow> str \<Rightarrow> bool \<Rightarrow> index_call list \<times> outcome option" where
  "initialize_system lib data_folder force_rebuild =
     (let path = ascii ''faiss_index'';
          index_exists = os_path_exists lib path
      in if force_rebuild \<and> index_exists then
           (case shutil_rmtree lib path of
              Some e \<Rightarrow> ([RemoveTree path], Some (Uncaught e))
            | None \<Rightarrow>
                (case first_setup lib data_folder path of
                   (calls, out) \<Rightarrow> (RemoveTree path # calls, out)))
         else if \<not> index_exists then first_setup lib data_folder path
         else ([], None))"

record run =
  notices :: "notice list"
  index_calls :: "index_call list"
  run_outcome :: outcome

definition main :: "library \<Rightarrow> (str \<rightharpoonup> str) \<Rightarrow> run" where
  "main lib getenv =
     (if env_missing getenv (ascii ''OPENAI_API_KEY'') then
        \<lparr>notices = [ApiKeyError], index_calls = [], run_outcome = SysExit 1\<rparr>
      else
        (let data_folder =
               (case getenv (ascii ''QUALITY_DATA_FOLDER'') of
                  Some v \<Rightarrow> v
                | None \<Rightarrow> ascii ''./data'')
         in (case initialize_system lib data_folder False of
               (calls, Some out) \<Rightarrow>
                 \<lparr>notices = [], index_calls = calls, run_outcome = out\<rparr>
             | (calls, None) \<Rightarrow>
                 \<lparr>notices = [], index_calls = calls,
                  run_outcome = InteractiveMode data_folder\<rparr>)))"

text \<open>The \<open>__main__\<close> block of demo.py.\<close>

definition demo_main :: "(str \<rightharpoonup> str) \<Rightarrow> run" where
  "demo_main getenv =
     \<lparr>notices = (if env_missing getenv (ascii ''OPENAI_API_KEY'') then [ApiKeyWarning] else []),
      index_calls = [],
      run_outcome = Demo\<rparr>"

section \<open>Specification-side definitions\<close>

text \<open>
  The definitions of this section are not translations of source functions: they
  state, in the words of the specification, what the loops above are compared with.
\<close>





text \<open>
  The extension the loader matches on, the documents one file contributes, and the
  documents expected from a folder: those of every file whose lowercased extension
  is supported (or equals the lowercased requested type), in walk order; a file
  that fails to parse contributes none.
\<close>

definition lowered_extension :: "library \<Rightarrow> str \<Rightarrow> str" where
  "lowered_extension lib file = str_lower lib (snd (os_path_splitext lib file))"

definition file_documents :: "library \<Rightarrow> str \<Rightarrow> str \<Rightarrow> document list" where
  "file_documents lib root file =
     (case load_single_file lib (os_path_join lib root file) (lowered_extension lib file) of
        Inr docs \<Rightarrow>
          map (add_file_metadata file (os_path_join lib root file) (lowered_extension lib file))
            docs
      | Inl e \<Rightarrow> [])"

definition expected_documents :: "library \<Rightarrow> str \<Rightarrow> document list" where
  "expected_documents lib data_folder =
     concat (map (\<lambda>(root, dirs, files).
       concat (map (file_documents lib root)
         (filter (\<lambda>file. supported_extensions (lowered_extension lib file) \<noteq> None) files)))
       (os_walk lib data_folder))"

definition expected_documents_by_type :: "library \<Rightarrow> str \<Rightarrow> str \<Rightarrow> document list" where
  "expected_documents_by_type lib data_folder file_type =
     concat (map (\<lambda>(root, dirs, files).
       concat (map (file_documents lib root)
         (filter (\<lambda>file. lowered_extension lib file = str_lower lib file_type) files)))
       (os_walk lib data_folder))"

text \<open>The process has left through \<open>sys.exit\<close>.\<close>

definition exited :: "outcome \<Rightarrow> bool" where
  "exited out = (case out of SysExit status \<Rightarrow> True | _ \<Rightarrow> False)"

section \<open>An example world\<close>

text \<open>
  A concrete library for evaluating the model: \<open>str.lower\<close>, \<open>os.path.join\<close> and
  \<open>os.path.splitext\<close> as they act on ASCII POSIX paths (\<open>47\<close> is the slash, \<open>46\<close>
  the dot), a folder \<open>data\<close> with four files of which one fails to parse and one has
  no supported extension, a folder \<open>scrap\<close> from which nothing loads, and a small
  index.
\<close>

definition ascii_lower :: "str \<Rightarrow> str" where
  "ascii_lower s = map (\<lambda>c. if 65 \<le> c \<and> c \<le> 90 then c + 32 else c) s"

definition posix_join :: "str \<Rightarrow> str \<Rightarrow> str" where
  "posix_join a b =
     (if b \<noteq> [] \<and> hd b = 47 then b
      else if a = [] \<or> last a = 47 then a @ b
      else a @ 47 # b)"

definition posix_splitext :: "str \<Rightarrow> str \<times> str" where
  "posix_splitext p =
     (let r = rev p;
          tail = takeWhile (\<lambda>c. c \<noteq> 46 \<and> c \<noteq> 47) r
      in (case dropWhile (\<lambda>c. c \<noteq> 46 \<and> c \<noteq> 47) r of
            [] \<Rightarrow> (p, [])
          | c # before \<Rightarrow>
              if c = 46 \<and> list_ex (\<lambda>ch. ch \<noteq> 46) (takeWhile (\<lambda>ch. ch \<noteq> 47) before)
              then (rev before, 46 # rev tail)
              else (p, [])))"

definition example_doc :: "string \<Rightarrow> string \<Rightarrow> document" where
  "example_doc text file =
     \<lparr>page_content = ascii text,
      metadata = [ascii ''source_file'' \<mapsto> Str (ascii file),
                  ascii ''file_type'' \<mapsto> Str (ascii ''.txt'')]\<rparr>"

definition example_store :: vectorstore where
  "example_store =
     \<lparr>similarity_search_with_score = (\<lambda>query k. Inr []),
      similarity_search = (\<lambda>query k.
        if query = ascii ''A'' then
          Inr [example_doc ''crack'' ''a.txt'', example_doc ''rust'' ''b.txt'']
        else if query = ascii ''B'' then
          Inr [example_doc ''rust'' ''c.txt'', example_doc ''dent'' ''c.txt'']
        else Inr [])\<rparr>"

definition example_library :: library where
  "example_library =
     \<lparr>os_path_exists = (\<lambda>p. p = ascii ''data'' \<or> p = ascii ''scrap''),
      os_walk = (\<lambda>p.
        if p = ascii ''data'' then
          [(ascii ''data'', [],
            [ascii ''A.TXT'', ascii ''notes.md'', ascii ''bad.pdf'', ascii ''b.Pdf''])]
        else if p = ascii ''scrap'' then
          [(ascii ''scrap'', [], [ascii ''bad.pdf'', ascii ''notes.md''])]
        else []),
      os_path_join = posix_join,
      os_path_splitext = posix_splitext,
      str_lower = ascii_lower,
      py_hash = (\<lambda>s. int (sum_list s)),
      loader_load = (\<lambda>loader_class p.
        if p = ascii ''data/bad.pdf'' \<or> p = ascii ''scrap/bad.pdf''
        then Inl (LibraryError (ascii ''cannot parse''))
        else Inr [\<lparr>page_content = ascii ''crack'',
                   metadata = [ascii ''source'' \<mapsto> Str p]\<rparr>]),
      new_embeddings = Inr OpenAIEmbeddings,
      new_chat_model = (\<lambda>name t. Inr \<lparr>model_name = name, temperature = t\<rparr>),
      split_documents = (\<lambda>size overlap docs. Inr docs),
      faiss_from_documents = (\<lambda>docs emb. Inr example_store),
      faiss_load_local = (\<lambda>p emb. Inl (LibraryError (ascii ''no index''))),
      faiss_save_local = (\<lambda>vs p. None),
      shutil_rmtree = (\<lambda>p. None),
      qa_invoke = (\<lambda>chain query.
        Inr \<lparr>result = ascii ''grind and reweld'',
             source_documents =
               (if return_source_documents chain
                then Some [example_doc ''rust'' ''b.txt''] else None)\<rparr>)\<rparr>"

definition example_handler :: handler where
  "example_handler =
     \<lparr>index_path = ascii ''faiss_index'', handler_embeddings = OpenAIEmbeddings,
      llm = \<lparr>model_name = ascii ''gpt-4o-mini'', temperature = 0\<rparr>,
      handler_vectorstore = Some example_store\<rparr>"



definition example_loaded :: "string \<Rightarrow> string \<Rightarrow> string \<Rightarrow> document" where
  "example_loaded file file_path file_ext =
     \<lparr>page_content = ascii ''crack'',
      metadata = [ascii ''source'' \<mapsto> Str (ascii file_path),
        ascii ''source_file'' \<mapsto> Str (ascii file),
        ascii ''source_path'' \<mapsto> Str (ascii file_path),
        ascii ''file_type'' \<mapsto> Str (ascii file_ext)]\<rparr>"

section \<open>Verified properties\<close>

lemmas example_defs =
  example_library_def posix_join_def posix_splitext_def ascii_lower_def
  supported_extensions_def load_single_file_def add_file_metadata_def
  lowered_extension_def file_documents_def example_loaded_def ascii_def

subsection \<open>Querying without a loaded index\<close>

text \<open>
  C1. While no vector store is loaded, \<open>search_similar_cases\<close>,
  \<open>get_relevant_documents\<close> and \<open>search_by_keywords\<close> return the empty list, and
  \<open>handle_query\<close> returns the dict with the fixed placeholder answer and no sources,
  for every query and every \<open>k\<close>; none of them raises, and \<open>handle_query\<close> invokes
  no chain.
\<close>

theorem no_index_empty_results:
  "search_similar_cases (h\<lparr>handler_vectorstore := None\<rparr>) query k = Inr [] \<and>
   get_relevant_documents (h\<lparr>handler_vectorstore := None\<rparr>) query k = Inr [] \<and>
   search_by_keywords lib (h\<lparr>handler_vectorstore := None\<rparr>) keywords k = Inr [] \<and>
   handle_query lib (h\<lparr>handler_vectorstore := None\<rparr>) query return_sources =
     ([], Inr \<lparr>answer = not_loaded_answer, sources = []\<rparr>)"
  by (simp add: search_similar_cases_def get_relevant_documents_def
      search_by_keywords_def handle_query_def)

subsection \<open>Empty input to the index build\<close>



subsection \<open>Multi-keyword search\<close>















subsection \<open>Answer synthesis\<close>

text \<open>
  C6, as amended. With sources requested and returned by the chain, the response has
  one entry per source document, in order; its preview is the first 200 characters
  of the content followed by the three characters \<open>...\<close>, its file and type are the
  document's \<open>source_file\<close> and \<open>file_type\<close> metadata, or the placeholder where the
  key is absent.
\<close>

theorem handle_query_source_previews:
  assumes "handler_vectorstore h = Some vs"
    and "qa_invoke lib (qa_chain h vs True) query = Inr res"
    and "source_documents res = Some docs"
  shows "\<exists>r. snd (handle_query lib h query True) = Inr r \<and>
      answer r = result res \<and>
      length (sources r) = length docs \<and>
      (\<forall>i < length docs.
         content_preview (sources r ! i) = take 200 (page_content (docs ! i)) @ ascii ''...'' \<and>
         source_file_name (sources r ! i) =
           (case metadata (docs ! i) (ascii ''source_file'') of
              Some v \<Rightarrow> v | None \<Rightarrow> Str unknown_label) \<and>
         source_type (sources r ! i) =
           (case metadata (docs ! i) (ascii ''file_type'') of
              Some v \<Rightarrow> v | None \<Rightarrow> Str unknown_label))"
  using assms
  by (simp add: handle_query_def Let_def source_info_of_def metadata_get_def)

theorem handle_query_source_previews_witness:
  "handler_vectorstore example_handler = Some example_store \<and>
   snd (handle_query example_library example_handler (ascii ''weld'') True) =
     Inr \<lparr>answer = ascii ''grind and reweld'',
          sources = [\<lparr>source_file_name = Str (ascii ''b.txt''),
                      source_type = Str (ascii ''.txt''),
                      content_preview = ascii ''rust...''\<rparr>]\<rparr>"
proof -
  have h1: "handler_vectorstore example_handler = Some example_store"
    by (simp add: example_handler_def)
  have h2: "qa_invoke example_library (qa_chain example_handler example_store True)
       (ascii ''weld'') =
     Inr \<lparr>result = ascii ''grind and reweld'',
          source_documents = Some [example_doc ''rust'' ''b.txt'']\<rparr>"
    by (simp add: example_library_def qa_chain_def)
  from handle_query_source_previews [OF h1 h2, of "[example_doc ''rust'' ''b.txt'']"]
  obtain r where r: "snd (handle_query example_library example_handler (ascii ''weld'') True) = Inr r"
    and a: "answer r = ascii ''grind and reweld''"
    and l: "length (sources r) = 1"
    and p: "content_preview (sources r ! 0) = take 200 (ascii ''rust'') @ ascii ''...''"
    and f: "source_file_name (sources r ! 0) = Str (ascii ''b.txt'')"
    and t: "source_type (sources r ! 0) = Str (ascii ''.txt'')"
    by (auto simp add: example_doc_def ascii_def)
  from l obtain s where s: "sources r = [s]"
    by (cases "sources r") auto
  from a s p f t have "r = \<lparr>answer = ascii ''grind and reweld'',
          sources = [\<lparr>source_file_name = Str (ascii ''b.txt''),
                      source_type = Str (ascii ''.txt''),
                      content_preview = ascii ''rust...''\<rparr>]\<rparr>"
    by (cases r, cases s) (simp add: ascii_def)
  with h1 r show ?thesis by simp
qed

text \<open>
  The preview of a four-character content is seven characters long: it is not the
  first 200 characters of the content.
\<close>

theorem handle_query_preview_counterexample:
  "snd (handle_query example_library example_handler (ascii ''weld'') True) =
     Inr \<lparr>answer = ascii ''grind and reweld'',
          sources = [\<lparr>source_file_name = Str (ascii ''b.txt''),
                      source_type = Str (ascii ''.txt''),
                      content_preview = ascii ''rust...''\<rparr>]\<rparr> \<and>
   qa_invoke example_library (qa_chain example_handler example_store True) (ascii ''weld'') =
     Inr \<lparr>result = ascii ''grind and reweld'',
          source_documents = Some [example_doc ''rust'' ''b.txt'']\<rparr> \<and>
   take 200 (page_content (example_doc ''rust'' ''b.txt'')) = ascii ''rust'' \<and>
   ascii ''rust...'' \<noteq> ascii ''rust''"
  by (simp add: handle_query_def example_handler_def example_library_def qa_chain_def
      source_info_of_def metadata_get_def example_doc_def ascii_def)

text \<open>
  C7. With an index loaded, \<open>handle_query\<close> invokes the chain exactly once, on the
  query, and its value is computed from what that one invocation returns. The chain
  is the \<open>stuff\<close> chain over the handler's model and the fixed prompt, and its
  retriever is the handler's store set to 5 chunks, whatever the library, the
  handler, the query and \<open>return_sources\<close> are.
\<close>

theorem handle_query_fixed_retrieval:
  assumes "handler_vectorstore h = Some vs"
  shows "\<exists>chain. fst (handle_query lib h query return_sources) = [Invoke chain query] \<and>
      retriever_k chain = 5 \<and> retriever_store chain = vs \<and> chain_llm chain = llm h \<and>
      chain_type chain = ascii ''stuff'' \<and>
      return_source_documents chain = return_sources \<and>
      prompt_template chain = qa_prompt_template \<and>
      prompt_input_variables chain = [ascii ''context'', ascii ''question''] \<and>
      snd (handle_query lib h query return_sources) =
        (case qa_invoke lib chain query of
           Inl e \<Rightarrow> Inl e
         | Inr res \<Rightarrow>
             Inr \<lparr>answer = result res,
                  sources =
                    (if return_sources then
                       (case source_documents res of
                          Some docs \<Rightarrow> map source_info_of docs
                        | None \<Rightarrow> [])
                     else [])\<rparr>)"
  using assms by (simp add: handle_query_def Let_def qa_chain_def)

theorem handle_query_fixed_retrieval_witness:
  "handler_vectorstore example_handler = Some example_store \<and>
   (\<exists>chain. fst (handle_query example_library example_handler (ascii ''weld'') False) =
      [Invoke chain (ascii ''weld'')] \<and> retriever_k chain = 5 \<and>
      retriever_store chain = example_store \<and> chain_type chain = ascii ''stuff'') \<and>
   snd (handle_query example_library example_handler (ascii ''weld'') False) =
     Inr \<lparr>answer = ascii ''grind and reweld'', sources = []\<rparr>"
proof -
  have h: "handler_vectorstore example_handler = Some example_store"
    by (simp add: example_handler_def)
  from handle_query_fixed_retrieval [OF h, of example_library "ascii ''weld''" False]
  obtain chain
    where l: "fst (handle_query example_library example_handler (ascii ''weld'') False) =
        [Invoke chain (ascii ''weld'')]"
      and k: "retriever_k chain = 5" "retriever_store chain = example_store"
        "chain_type chain = ascii ''stuff''"
      and r: "return_source_documents chain = False"
      and v: "snd (handle_query example_library example_handler (ascii ''weld'') False) =
        (case qa_invoke example_library chain (ascii ''weld'') of
           Inl e \<Rightarrow> Inl e
         | Inr res \<Rightarrow>
             Inr \<lparr>answer = result res,
                  sources =
                    (if False then
                       (case source_documents res of
                          Some docs \<Rightarrow> map source_info_of docs
                        | None \<Rightarrow> [])
                     else [])\<rparr>)"
    by blast
  from r have "qa_invoke example_library chain (ascii ''weld'') =
      Inr \<lparr>result = ascii ''grind and reweld'', source_documents = None\<rparr>"
    by (simp add: example_library_def)
  with v have "snd (handle_query example_library example_handler (ascii ''weld'') False) =
     Inr \<lparr>answer = ascii ''grind and reweld'', sources = []\<rparr>"
    by simp
  with h l k show ?thesis by blast
qed

subsection \<open>Loading documents\<close>

lemma load_files_step:
  "load_files lib root (fl # fls) acc =
     load_files lib root fls
       (acc @ (if supported_extensions (lowered_extension lib fl) \<noteq> None
               then file_documents lib root fl else []))"
  by (simp add: Let_def lowered_extension_def file_documents_def split: sum.split)

lemma load_files_eq:
  "load_files lib root fls acc =
     acc @ concat (map (file_documents lib root)
       (filter (\<lambda>file. supported_extensions (lowered_extension lib file) \<noteq> None) fls))"
proof (induction fls arbitrary: acc)
  case Nil
  then show ?case by simp
next
  case (Cons fl fls)
  show ?case
    unfolding load_files_step Cons.IH by simp
qed

lemma load_walk_eq:
  "load_walk lib w acc =
     acc @ concat (map (\<lambda>(root, dirs, files).
       concat (map (file_documents lib root)
         (filter (\<lambda>file. supported_extensions (lowered_extension lib file) \<noteq> None) files))) w)"
proof (induction w arbitrary: acc)
  case Nil
  then show ?case by simp
next
  case (Cons t w)
  obtain root dirs files where t: "t = (root, dirs, files)"
    by (cases t)
  show ?case
    by (simp add: t Cons.IH load_files_eq)
qed

lemma load_all_documents_eq:
  "load_all_documents lib data_folder =
     (if os_path_exists lib data_folder then expected_documents lib data_folder else [])"
  by (simp add: load_all_documents_def expected_documents_def load_walk_eq)

lemma load_files_by_type_step:
  "load_files_by_type lib file_type root (fl # fls) acc =
     load_files_by_type lib file_type root fls
       (acc @ (if lowered_extension lib fl = str_lower lib file_type
               then file_documents lib root fl else []))"
  by (simp add: Let_def lowered_extension_def file_documents_def split: sum.split)

lemma load_files_by_type_eq:
  "load_files_by_type lib file_type root fls acc =
     acc @ concat (map (file_documents lib root)
       (filter (\<lambda>file. lowered_extension lib file = str_lower lib file_type) fls))"
proof (induction fls arbitrary: acc)
  case Nil
  then show ?case by simp
next
  case (Cons fl fls)
  show ?case
    unfolding load_files_by_type_step Cons.IH by simp
qed

lemma load_walk_by_type_eq:
  "load_walk_by_type lib file_type w acc =
     acc @ concat (map (\<lambda>(root, dirs, files).
       concat (map (file_documents lib root)
         (filter (\<lambda>file. lowered_extension lib file = str_lower lib file_type) files))) w)"
proof (induction w arbitrary: acc)
  case Nil
  then show ?case by simp
next
  case (Cons t w)
  obtain root dirs files where t: "t = (root, dirs, files)"
    by (cases t)
  show ?case
    by (simp add: t Cons.IH load_files_by_type_eq)
qed

lemma load_documents_by_type_eq:
  "load_documents_by_type lib data_folder file_type =
     (if os_path_exists lib data_folder
      then expected_documents_by_type lib data_folder file_type else [])"
  by (simp add: load_documents_by_type_def expected_documents_by_type_def load_walk_by_type_eq)

lemma metadata_keys_distinct:
  "ascii ''source_file'' \<noteq> ascii ''source_path''"
  "ascii ''source_file'' \<noteq> ascii ''file_type''"
  "ascii ''source_path'' \<noteq> ascii ''file_type''"
  by (simp_all add: ascii_def)

lemma add_file_metadata_fields:
  "page_content (add_file_metadata file file_path file_ext doc) = page_content doc"
  "metadata (add_file_metadata file file_path file_ext doc) (ascii ''source_file'') = Some (Str file)"
  "metadata (add_file_metadata file file_path file_ext doc) (ascii ''source_path'') = Some (Str file_path)"
  "metadata (add_file_metadata file file_path file_ext doc) (ascii ''file_type'') = Some (Str file_ext)"
  "key \<noteq> ascii ''source_file'' \<Longrightarrow> key \<noteq> ascii ''source_path'' \<Longrightarrow> key \<noteq> ascii ''file_type'' \<Longrightarrow>
     metadata (add_file_metadata file file_path file_ext doc) key = metadata doc key"
  using metadata_keys_distinct by (simp_all add: add_file_metadata_def)

lemma in_file_documents:
  "d \<in> set (file_documents lib root file) \<longleftrightarrow>
     (\<exists>docs doc. load_single_file lib (os_path_join lib root file) (lowered_extension lib file) = Inr docs \<and>
        doc \<in> set docs \<and>
        d = add_file_metadata file (os_path_join lib root file) (lowered_extension lib file) doc)"
  by (cases "load_single_file lib (os_path_join lib root file) (lowered_extension lib file)")
    (auto simp add: file_documents_def)

lemma in_expected_documents:
  "d \<in> set (expected_documents lib data_folder) \<longleftrightarrow>
     (\<exists>root dirs files file. (root, dirs, files) \<in> set (os_walk lib data_folder) \<and>
        file \<in> set files \<and> supported_extensions (lowered_extension lib file) \<noteq> None \<and>
        d \<in> set (file_documents lib root file))"
  by (fastforce simp add: expected_documents_def)

lemma in_expected_documents_by_type:
  "d \<in> set (expected_documents_by_type lib data_folder file_type) \<longleftrightarrow>
     (\<exists>root dirs files file. (root, dirs, files) \<in> set (os_walk lib data_folder) \<and>
        file \<in> set files \<and> lowered_extension lib file = str_lower lib file_type \<and>
        d \<in> set (file_documents lib root file))"
  by (fastforce simp add: expected_documents_by_type_def)


lemma example_expected_data:
  "expected_documents example_library (ascii ''data'') =
     [example_loaded ''A.TXT'' ''data/A.TXT'' ''.txt'',
      example_loaded ''b.Pdf'' ''data/b.Pdf'' ''.pdf'']"
  by (simp add: expected_documents_def example_defs)

lemma example_expected_pdf:
  "expected_documents_by_type example_library (ascii ''data'') (ascii ''.PDF'') =
     [example_loaded ''b.Pdf'' ''data/b.Pdf'' ''.pdf'']"
  by (simp add: expected_documents_by_type_def example_defs)

text \<open>
  C8, as amended. \<open>load_all_documents\<close> returns exactly the documents parsed from the
  files whose lowercased extension is supported, in walk order, a file that fails
  to parse contributing none; each returned document carries the content and
  metadata of a parsed document with \<open>source_file\<close> set to the file's name,
  \<open>source_path\<close> to its path and \<open>file_type\<close> to its lowercased extension; a missing
  folder gives the empty list, and so does a folder in which every file is
  unsupported or fails.
\<close>

theorem load_all_documents_exact:
  "load_all_documents lib data_folder =
     (if os_path_exists lib data_folder then expected_documents lib data_folder else []) \<and>
   (\<forall>d \<in> set (load_all_documents lib data_folder).
      \<exists>root dirs files file cls docs doc.
        (root, dirs, files) \<in> set (os_walk lib data_folder) \<and> file \<in> set files \<and>
        supported_extensions (lowered_extension lib file) = Some cls \<and>
        loader_load lib cls (os_path_join lib root file) = Inr docs \<and> doc \<in> set docs \<and>
        page_content d = page_content doc \<and>
        metadata d = (metadata doc)
          (ascii ''source_file'' \<mapsto> Str file,
           ascii ''source_path'' \<mapsto> Str (os_path_join lib root file),
           ascii ''file_type'' \<mapsto> Str (lowered_extension lib file))) \<and>
   ((\<forall>(root, dirs, files) \<in> set (os_walk lib data_folder). \<forall>file \<in> set files.
        supported_extensions (lowered_extension lib file) = None \<or>
        isl (load_single_file lib (os_path_join lib root file) (lowered_extension lib file)))
      \<longrightarrow> load_all_documents lib data_folder = [])"
proof (intro conjI ballI impI)
  show e: "load_all_documents lib data_folder =
     (if os_path_exists lib data_folder then expected_documents lib data_folder else [])"
    by (rule load_all_documents_eq)
  show "\<exists>root dirs files file cls docs doc.
        (root, dirs, files) \<in> set (os_walk lib data_folder) \<and> file \<in> set files \<and>
        supported_extensions (lowered_extension lib file) = Some cls \<and>
        loader_load lib cls (os_path_join lib root file) = Inr docs \<and> doc \<in> set docs \<and>
        page_content d = page_content doc \<and>
        metadata d = (metadata doc)
          (ascii ''source_file'' \<mapsto> Str file,
           ascii ''source_path'' \<mapsto> Str (os_path_join lib root file),
           ascii ''file_type'' \<mapsto> Str (lowered_extension lib file))"
    if "d \<in> set (load_all_documents lib data_folder)" for d
  proof -
    from that have "d \<in> set (expected_documents lib data_folder)"
      by (simp add: e split: if_splits)
    then obtain root dirs files fl docs doc
      where w: "(root, dirs, files) \<in> set (os_walk lib data_folder)" "fl \<in> set files"
        and s: "supported_extensions (lowered_extension lib fl) \<noteq> None"
        and l: "load_single_file lib (os_path_join lib root fl) (lowered_extension lib fl) = Inr docs"
        and m: "doc \<in> set docs"
        and d: "d = add_file_metadata fl (os_path_join lib root fl) (lowered_extension lib fl) doc"
      unfolding in_expected_documents in_file_documents by blast
    from s obtain cls where c: "supported_extensions (lowered_extension lib fl) = Some cls"
      by blast
    with l have ll: "loader_load lib cls (os_path_join lib root fl) = Inr docs"
      by (simp add: load_single_file_def)
    have pc: "page_content d = page_content doc"
      by (simp add: d add_file_metadata_def)
    have md: "metadata d = (metadata doc)
          (ascii ''source_file'' \<mapsto> Str fl,
           ascii ''source_path'' \<mapsto> Str (os_path_join lib root fl),
           ascii ''file_type'' \<mapsto> Str (lowered_extension lib fl))"
      by (simp add: d add_file_metadata_def)
    from w c ll m pc md show ?thesis
      by blast
  qed
  show "load_all_documents lib data_folder = []"
    if a: "\<forall>(root, dirs, files) \<in> set (os_walk lib data_folder). \<forall>file \<in> set files.
        supported_extensions (lowered_extension lib file) = None \<or>
        isl (load_single_file lib (os_path_join lib root file) (lowered_extension lib file))"
  proof -
    have "expected_documents lib data_folder = []"
    proof (cases "expected_documents lib data_folder")
      case Nil
      then show ?thesis .
    next
      case (Cons d ds)
      then have "d \<in> set (expected_documents lib data_folder)"
        by simp
      then obtain root dirs files fl docs
        where w: "(root, dirs, files) \<in> set (os_walk lib data_folder)" "fl \<in> set files"
          and s: "supported_extensions (lowered_extension lib fl) \<noteq> None"
          and l: "load_single_file lib (os_path_join lib root fl) (lowered_extension lib fl) = Inr docs"
        unfolding in_expected_documents in_file_documents by blast
      from a w have "supported_extensions (lowered_extension lib fl) = None \<or>
        isl (load_single_file lib (os_path_join lib root fl) (lowered_extension lib fl))"
        by blast
      with s l show ?thesis by simp
    qed
    then show ?thesis by (simp add: e)
  qed
qed

theorem load_all_documents_exact_witness:
  "os_path_exists example_library (ascii ''data'') \<and>
   load_all_documents example_library (ascii ''data'') =
     [example_loaded ''A.TXT'' ''data/A.TXT'' ''.txt'',
      example_loaded ''b.Pdf'' ''data/b.Pdf'' ''.pdf''] \<and>
   load_all_documents example_library (ascii ''scrap'') = [] \<and>
   \<not> os_path_exists example_library (ascii ''missing'') \<and>
   load_all_documents example_library (ascii ''missing'') = []"
proof -
  have x: "os_path_exists example_library (ascii ''data'')"
    by (simp add: example_library_def)
  have m: "\<not> os_path_exists example_library (ascii ''missing'')"
    by (simp add: example_library_def ascii_def)
  have f: "\<forall>(root, dirs, files) \<in> set (os_walk example_library (ascii ''scrap'')).
     \<forall>file \<in> set files.
        supported_extensions (lowered_extension example_library file) = None \<or>
        isl (load_single_file example_library (os_path_join example_library root file)
               (lowered_extension example_library file))"
    by (simp add: example_defs)
  from load_all_documents_exact [of example_library "ascii ''data''"] x
  have 1: "load_all_documents example_library (ascii ''data'') =
     [example_loaded ''A.TXT'' ''data/A.TXT'' ''.txt'',
      example_loaded ''b.Pdf'' ''data/b.Pdf'' ''.pdf'']"
    by (simp add: example_expected_data)
  from load_all_documents_exact [of example_library "ascii ''scrap''"] f
  have 2: "load_all_documents example_library (ascii ''scrap'') = []"
    by blast
  from load_all_documents_exact [of example_library "ascii ''missing''"] m
  have 3: "load_all_documents example_library (ascii ''missing'') = []"
    by simp
  from x m 1 2 3 show ?thesis by blast
qed

text \<open>
  The file \<open>A.TXT\<close> has the extension \<open>.TXT\<close>, which is not a key of the supported
  set; its document is returned all the same, with \<open>file_type\<close> \<open>.txt\<close>.
\<close>

theorem load_all_documents_uppercase_counterexample:
  "snd (os_path_splitext example_library (ascii ''A.TXT'')) = ascii ''.TXT'' \<and>
   supported_extensions (ascii ''.TXT'') = None \<and>
   load_all_documents example_library (ascii ''data'') =
     [example_loaded ''A.TXT'' ''data/A.TXT'' ''.txt'',
      example_loaded ''b.Pdf'' ''data/b.Pdf'' ''.pdf''] \<and>
   metadata (example_loaded ''A.TXT'' ''data/A.TXT'' ''.txt'') (ascii ''source_file'') =
     Some (Str (ascii ''A.TXT'')) \<and>
   metadata (example_loaded ''A.TXT'' ''data/A.TXT'' ''.txt'') (ascii ''file_type'') =
     Some (Str (ascii ''.txt'')) \<and>
   ascii ''.txt'' \<noteq> ascii ''.TXT''"
proof -
  have 1: "snd (os_path_splitext example_library (ascii ''A.TXT'')) = ascii ''.TXT''"
    by (simp add: example_library_def posix_splitext_def ascii_def)
  have 2: "supported_extensions (ascii ''.TXT'') = None"
    by (simp add: supported_extensions_def ascii_def)
  have "os_path_exists example_library (ascii ''data'')"
    by (simp add: example_library_def)
  then have 3: "load_all_documents example_library (ascii ''data'') =
     [example_loaded ''A.TXT'' ''data/A.TXT'' ''.txt'',
      example_loaded ''b.Pdf'' ''data/b.Pdf'' ''.pdf'']"
    by (simp add: load_all_documents_eq example_expected_data)
  have 4: "metadata (example_loaded ''A.TXT'' ''data/A.TXT'' ''.txt'') (ascii ''source_file'') =
     Some (Str (ascii ''A.TXT''))"
    by (simp add: example_loaded_def ascii_def)
  have 5: "metadata (example_loaded ''A.TXT'' ''data/A.TXT'' ''.txt'') (ascii ''file_type'') =
     Some (Str (ascii ''.txt''))"
    by (simp add: example_loaded_def ascii_def)
  have 6: "ascii ''.txt'' \<noteq> ascii ''.TXT''"
    by (simp add: ascii_def)
  from 1 2 3 4 5 6 show ?thesis by blast
qed

text \<open>
  C10. Extension matching ignores case. In \<open>load_all_documents\<close> a file is looked up
  by its lowercased extension: when that is a supported extension and the file
  parses, its documents are returned with \<open>file_type\<close> set to the lowercased
  extension. \<open>load_documents_by_type\<close> selects the files whose lowercased extension
  equals the lowercased requested type, so that two requested types with the same
  lowercase form select the same documents.
\<close>

theorem extension_matching_ignores_case:
  "(os_path_exists lib data_folder \<and> (root, dirs, files) \<in> set (os_walk lib data_folder) \<and>
    file \<in> set files \<and>
    supported_extensions (str_lower lib (snd (os_path_splitext lib file))) = Some cls \<and>
    loader_load lib cls (os_path_join lib root file) = Inr docs \<and> doc \<in> set docs \<longrightarrow>
      (\<exists>d \<in> set (load_all_documents lib data_folder).
         page_content d = page_content doc \<and>
         metadata d (ascii ''source_file'') = Some (Str file) \<and>
         metadata d (ascii ''file_type'') =
           Some (Str (str_lower lib (snd (os_path_splitext lib file)))))) \<and>
   load_documents_by_type lib data_folder file_type =
     (if os_path_exists lib data_folder
      then expected_documents_by_type lib data_folder file_type else []) \<and>
   (\<forall>d \<in> set (load_documents_by_type lib data_folder file_type).
      metadata d (ascii ''file_type'') = Some (Str (str_lower lib file_type))) \<and>
   (str_lower lib file_type = str_lower lib other_type \<longrightarrow>
      load_documents_by_type lib data_folder file_type =
      load_documents_by_type lib data_folder other_type)"
proof (intro conjI ballI impI)
  show "\<exists>d \<in> set (load_all_documents lib data_folder).
         page_content d = page_content doc \<and>
         metadata d (ascii ''source_file'') = Some (Str file) \<and>
         metadata d (ascii ''file_type'') =
           Some (Str (str_lower lib (snd (os_path_splitext lib file))))"
    if a: "os_path_exists lib data_folder \<and> (root, dirs, files) \<in> set (os_walk lib data_folder) \<and>
      file \<in> set files \<and>
      supported_extensions (str_lower lib (snd (os_path_splitext lib file))) = Some cls \<and>
      loader_load lib cls (os_path_join lib root file) = Inr docs \<and> doc \<in> set docs"
  proof -
    let ?d = "add_file_metadata file (os_path_join lib root file) (lowered_extension lib file) doc"
    from a have "load_single_file lib (os_path_join lib root file) (lowered_extension lib file) =
        Inr docs"
      by (simp add: load_single_file_def lowered_extension_def)
    with a have m: "?d \<in> set (file_documents lib root file)"
      unfolding in_file_documents by blast
    from a have s: "supported_extensions (lowered_extension lib file) \<noteq> None"
      by (simp add: lowered_extension_def)
    from a have w: "(root, dirs, files) \<in> set (os_walk lib data_folder)" "file \<in> set files"
      by simp_all
    from w s m have "?d \<in> set (expected_documents lib data_folder)"
      unfolding in_expected_documents by blast
    with a have "?d \<in> set (load_all_documents lib data_folder)"
      by (simp add: load_all_documents_eq)
    moreover have "page_content ?d = page_content doc"
      and "metadata ?d (ascii ''source_file'') = Some (Str file)"
      and "metadata ?d (ascii ''file_type'') =
           Some (Str (str_lower lib (snd (os_path_splitext lib file))))"
      by (simp_all add: add_file_metadata_fields lowered_extension_def)
    ultimately show ?thesis by blast
  qed
  show e: "load_documents_by_type lib data_folder file_type =
     (if os_path_exists lib data_folder
      then expected_documents_by_type lib data_folder file_type else [])"
    by (rule load_documents_by_type_eq)
  show "metadata d (ascii ''file_type'') = Some (Str (str_lower lib file_type))"
    if "d \<in> set (load_documents_by_type lib data_folder file_type)" for d
  proof -
    from that have "d \<in> set (expected_documents_by_type lib data_folder file_type)"
      by (simp add: e split: if_splits)
    then obtain root' fl doc'
      where "lowered_extension lib fl = str_lower lib file_type"
        and "d = add_file_metadata fl (os_path_join lib root' fl) (lowered_extension lib fl) doc'"
      unfolding in_expected_documents_by_type in_file_documents by blast
    then show ?thesis
      by (simp add: add_file_metadata_fields)
  qed
  show "load_documents_by_type lib data_folder file_type =
      load_documents_by_type lib data_folder other_type"
    if "str_lower lib file_type = str_lower lib other_type"
    using that
    by (simp add: load_documents_by_type_eq expected_documents_by_type_def)
qed

theorem extension_matching_ignores_case_witness:
  "(\<exists>d \<in> set (load_all_documents example_library (ascii ''data'')).
      page_content d = ascii ''crack'' \<and>
      metadata d (ascii ''source_file'') = Some (Str (ascii ''A.TXT'')) \<and>
      metadata d (ascii ''file_type'') = Some (Str (ascii ''.txt''))) \<and>
   (\<exists>d \<in> set (load_all_documents example_library (ascii ''data'')).
      page_content d = ascii ''crack'' \<and>
      metadata d (ascii ''source_file'') = Some (Str (ascii ''b.Pdf'')) \<and>
      metadata d (ascii ''file_type'') = Some (Str (ascii ''.pdf''))) \<and>
   str_lower example_library (ascii ''.PDF'') = str_lower example_library (ascii ''.pdf'') \<and>
   load_documents_by_type example_library (ascii ''data'') (ascii ''.pdf'') =
     [example_loaded ''b.Pdf'' ''data/b.Pdf'' ''.pdf''] \<and>
   load_documents_by_type example_library (ascii ''data'') (ascii ''.PDF'') =
     [example_loaded ''b.Pdf'' ''data/b.Pdf'' ''.pdf'']"
proof -
  let ?files = "[ascii ''A.TXT'', ascii ''notes.md'', ascii ''bad.pdf'', ascii ''b.Pdf'']"
  let ?doc = "\<lambda>p. \<lparr>page_content = ascii ''crack'', metadata = [ascii ''source'' \<mapsto> Str p]\<rparr>"
  have t: "os_path_exists example_library (ascii ''data'') \<and>
      (ascii ''data'', [], ?files) \<in> set (os_walk example_library (ascii ''data'')) \<and>
      ascii ''A.TXT'' \<in> set ?files \<and>
      supported_extensions
        (str_lower example_library (snd (os_path_splitext example_library (ascii ''A.TXT'')))) =
        Some TextLoader \<and>
      loader_load example_library TextLoader
        (os_path_join example_library (ascii ''data'') (ascii ''A.TXT'')) =
        Inr [?doc (ascii ''data/A.TXT'')] \<and>
      ?doc (ascii ''data/A.TXT'') \<in> set [?doc (ascii ''data/A.TXT'')]"
    by (simp add: example_defs)
  have p: "os_path_exists example_library (ascii ''data'') \<and>
      (ascii ''data'', [], ?files) \<in> set (os_walk example_library (ascii ''data'')) \<and>
      ascii ''b.Pdf'' \<in> set ?files \<and>
      supported_extensions
        (str_lower example_library (snd (os_path_splitext example_library (ascii ''b.Pdf'')))) =
        Some PyPDFLoader \<and>
      loader_load example_library PyPDFLoader
        (os_path_join example_library (ascii ''data'') (ascii ''b.Pdf'')) =
        Inr [?doc (ascii ''data/b.Pdf'')] \<and>
      ?doc (ascii ''data/b.Pdf'') \<in> set [?doc (ascii ''data/b.Pdf'')]"
    by (simp add: example_defs)
  have lt: "str_lower example_library (snd (os_path_splitext example_library (ascii ''A.TXT''))) =
      ascii ''.txt''"
    by (simp add: example_defs)
  have lp: "str_lower example_library (snd (os_path_splitext example_library (ascii ''b.Pdf''))) =
      ascii ''.pdf''"
    by (simp add: example_defs)
  have l: "str_lower example_library (ascii ''.PDF'') = str_lower example_library (ascii ''.pdf'')"
    by (simp add: example_defs)
  have x: "os_path_exists example_library (ascii ''data'')"
    by (simp add: example_library_def)
  note a = extension_matching_ignores_case [of example_library "ascii ''data''" "ascii ''data''"
      "[]" ?files "ascii ''A.TXT''" TextLoader "[?doc (ascii ''data/A.TXT'')]"
      "?doc (ascii ''data/A.TXT'')" "ascii ''.PDF''" "ascii ''.pdf''"]
  note b = extension_matching_ignores_case [of example_library "ascii ''data''" "ascii ''data''"
      "[]" ?files "ascii ''b.Pdf''" PyPDFLoader "[?doc (ascii ''data/b.Pdf'')]"
      "?doc (ascii ''data/b.Pdf'')" "ascii ''.PDF''" "ascii ''.pdf''"]
  from a t lt have 1: "\<exists>d \<in> set (load_all_documents example_library (ascii ''data'')).
      page_content d = ascii ''crack'' \<and>
      metadata d (ascii ''source_file'') = Some (Str (ascii ''A.TXT'')) \<and>
      metadata d (ascii ''file_type'') = Some (Str (ascii ''.txt''))"
    by simp
  from b p lp have 2: "\<exists>d \<in> set (load_all_documents example_library (ascii ''data'')).
      page_content d = ascii ''crack'' \<and>
      metadata d (ascii ''source_file'') = Some (Str (ascii ''b.Pdf'')) \<and>
      metadata d (ascii ''file_type'') = Some (Str (ascii ''.pdf''))"
    by simp
  from a x have 3: "load_documents_by_type example_library (ascii ''data'') (ascii ''.PDF'') =
     [example_loaded ''b.Pdf'' ''data/b.Pdf'' ''.pdf'']"
    by (simp add: example_expected_pdf)
  from a l have "load_documents_by_type example_library (ascii ''data'') (ascii ''.PDF'') =
      load_documents_by_type example_library (ascii ''data'') (ascii ''.pdf'')"
    by blast
  with 3 have 4: "load_documents_by_type example_library (ascii ''data'') (ascii ''.pdf'') =
     [example_loaded ''b.Pdf'' ''data/b.Pdf'' ''.pdf'']"
    by simp
  from 1 2 l 3 4 show ?thesis by blast
qed

subsection \<open>Start-up without an API key\<close>

text \<open>
  C9, as amended. With \<open>OPENAI_API_KEY\<close> unset or empty, \<open>main\<close> exits with status 1
  before \<open>initialize_system\<close> and the interactive mode; the \<open>__main__\<close> block of
  demo.py only issues a warning and passes control to \<open>demo()\<close>.
\<close>

theorem missing_api_key_startup:
  assumes "env_missing getenv (ascii ''OPENAI_API_KEY'')"
  shows "main lib getenv =
      \<lparr>notices = [ApiKeyError], index_calls = [], run_outcome = SysExit 1\<rparr> \<and>
    demo_main getenv =
      \<lparr>notices = [ApiKeyWarning], index_calls = [], run_outcome = Demo\<rparr>"
  using assms by (simp add: main_def demo_main_def)

theorem missing_api_key_startup_witness:
  "env_missing Map.empty (ascii ''OPENAI_API_KEY'') \<and>
   main example_library Map.empty =
      \<lparr>notices = [ApiKeyError], index_calls = [], run_outcome = SysExit 1\<rparr> \<and>
   demo_main Map.empty =
      \<lparr>notices = [ApiKeyWarning], index_calls = [], run_outcome = Demo\<rparr>"
proof -
  have h: "env_missing Map.empty (ascii ''OPENAI_API_KEY'')"
    by (simp add: env_missing_def)
  from missing_api_key_startup [OF h, of example_library] h show ?thesis by simp
qed

theorem demo_missing_api_key_counterexample:
  "env_missing Map.empty (ascii ''OPENAI_API_KEY'') \<and>
   \<not> exited (run_outcome (demo_main Map.empty)) \<and>
   run_outcome (demo_main Map.empty) = Demo"
  by (simp add: env_missing_def demo_main_def exited_def)



end
